theory Spec2Isabelle
  imports Main
begin

unbundle bit_operations_syntax

section \<open>Python values and formatting used by py_uds_lib\<close>

text \<open>
  The library builds UDS (ISO 14229) request strings out of Python integers with
  f-strings. Python integers are unbounded, so they are \<^typ>\<open>int\<close>; \<open>&\<close> is \<open>AND\<close>
  and \<open>>>\<close> is \<^const>\<open>drop_bit\<close> on \<^typ>\<open>int\<close> (both two's complement, as in Python).
  Every exception the code can raise on arguments of the annotated types is a value of
  \<open>py_error\<close>.
\<close>

datatype py_error = TypeError | OverflowError | IndexError

definition bind_err :: "py_error + 'a \<Rightarrow> ('a \<Rightarrow> py_error + 'b) \<Rightarrow> py_error + 'b" where
  "bind_err m f = (case m of Inl e \<Rightarrow> Inl e | Inr v \<Rightarrow> f v)"

definition hex_digit :: "nat \<Rightarrow> char" where
  "hex_digit d = ''0123456789ABCDEF'' ! d"

text \<open>The digits of a natural number, most significant first, in base 16 and base 10.\<close>

fun hex_digits :: "nat \<Rightarrow> string" where
  "hex_digits n =
     (if n < 16 then [hex_digit n] else hex_digits (n div 16) @ [hex_digit (n mod 16)])"

fun dec_digits :: "nat \<Rightarrow> string" where
  "dec_digits n =
     (if n < 10 then [hex_digit n] else dec_digits (n div 10) @ [hex_digit (n mod 10)])"

declare hex_digits.simps [simp del] dec_digits.simps [simp del]

text \<open>
  \<open>f'{v:02X}'\<close>: upper-case hexadecimal, zero-filled to a minimum width of 2. The width
  is a minimum only, and it counts the sign of a negative number, so \<open>f'{256:02X}'\<close> is
  \<open>100\<close> and \<open>f'{-1:02X}'\<close> is \<open>-1\<close>.
\<close>

definition format_02X :: "int \<Rightarrow> string" where
  "format_02X v =
     (if v < 0 then CHR ''-'' # hex_digits (nat (- v))
      else replicate (2 - length (hex_digits (nat v))) CHR ''0'' @ hex_digits (nat v))"

text \<open>\<open>f'{v}'\<close> with no format specification: the decimal representation \<open>str(v)\<close>.\<close>

definition str_int :: "int \<Rightarrow> string" where
  "str_int v = (if v < 0 then CHR ''-'' # dec_digits (nat (- v)) else dec_digits (nat v))"

text \<open>\<open>" ".join(parts)\<close>.\<close>

fun join_sp :: "string list \<Rightarrow> string" where
  "join_sp [] = []"
| "join_sp [x] = x"
| "join_sp (x # y # ys) = x @ '' '' @ join_sp (y # ys)"

text \<open>
  The comprehension \<open>" ".join([f"{value & 0xFF:02X}" for value in record])\<close>, which the
  source repeats for every list-valued parameter.
\<close>

definition render_list :: "int list \<Rightarrow> string" where
  "render_list record = join_sp (map (\<lambda>value. format_02X (value AND 0xFF)) record)"

text \<open>\<open>int.bit_length()\<close>: the number of bits of the absolute value.\<close>

fun bit_length_nat :: "nat \<Rightarrow> nat" where
  "bit_length_nat n = (if n = 0 then 0 else Suc (bit_length_nat (n div 2)))"

declare bit_length_nat.simps [simp del]

definition bit_length :: "int \<Rightarrow> nat" where
  "bit_length v = bit_length_nat (nat \<bar>v\<bar>)"

text \<open>
  \<open>round(k / 8)\<close> for a bit count \<open>k\<close>. The true division by 8 is exact on doubles
  (a power of two, and a bit count is far below \<open>2 ^ 53\<close>), and \<open>round\<close> rounds a tie to
  the even neighbour.
\<close>

definition round_div8 :: "nat \<Rightarrow> nat" where
  "round_div8 k =
     (if k mod 8 < 4 then k div 8
      else if 4 < k mod 8 then k div 8 + 1
      else if even (k div 8) then k div 8 else k div 8 + 1)"

text \<open>
  \<open>v.to_bytes(n)\<close>, big-endian and unsigned (the defaults of Python 3.11 and later):
  OverflowError for a negative \<open>v\<close> and for a \<open>v\<close> that does not fit in \<open>n\<close> bytes.
\<close>

definition to_bytes :: "int \<Rightarrow> nat \<Rightarrow> py_error + int list" where
  "to_bytes v n =
     (if v < 0 then Inl OverflowError
      else if 256 ^ n \<le> v then Inl OverflowError
      else Inr (map (\<lambda>i. (v div 256 ^ i) mod 256) (rev [0..<n])))"

text \<open>An optional argument used where the code needs an integer or an iterable.\<close>

definition require :: "'a option \<Rightarrow> py_error + 'a" where
  "require x = (case x of None \<Rightarrow> Inl TypeError | Some v \<Rightarrow> Inr v)"

text \<open>\<open>params[i]\<close> for a non-negative literal index.\<close>

definition index :: "int list \<Rightarrow> nat \<Rightarrow> py_error + int" where
  "index params i = (if i < length params then Inr (params ! i) else Inl IndexError)"

section \<open>Service identifiers (class Sid)\<close>

definition sid_DSC :: int where "sid_DSC = 0x10"
definition sid_ER :: int where "sid_ER = 0x11"
definition sid_SA :: int where "sid_SA = 0x27"
definition sid_CC :: int where "sid_CC = 0x28"
definition sid_TP :: int where "sid_TP = 0x3E"
definition sid_ATP :: int where "sid_ATP = 0x83"
definition sid_SDT :: int where "sid_SDT = 0x84"
definition sid_CDTCS :: int where "sid_CDTCS = 0x85"
definition sid_ROE :: int where "sid_ROE = 0x86"
definition sid_LC :: int where "sid_LC = 0x87"
definition sid_RDBI :: int where "sid_RDBI = 0x22"
definition sid_RMBA :: int where "sid_RMBA = 0x23"
definition sid_RSDBI :: int where "sid_RSDBI = 0x24"
definition sid_RDBPI :: int where "sid_RDBPI = 0x2A"
definition sid_DDDI :: int where "sid_DDDI = 0x2C"
definition sid_WDBI :: int where "sid_WDBI = 0x2E"
definition sid_WMBA :: int where "sid_WMBA = 0x3D"
definition sid_CDTCI :: int where "sid_CDTCI = 0x14"
definition sid_RDTCI :: int where "sid_RDTCI = 0x19"
definition sid_IOCBI :: int where "sid_IOCBI = 0x2F"
definition sid_RC :: int where "sid_RC = 0x31"
definition sid_RD :: int where "sid_RD = 0x34"
definition sid_RU :: int where "sid_RU = 0x35"
definition sid_TD :: int where "sid_TD = 0x36"
definition sid_RTE :: int where "sid_RTE = 0x37"
definition sid_RFT :: int where "sid_RFT = 0x38"

section \<open>The generic big-endian helper\<close>

text \<open>
  \<^verbatim>\<open>
  def convert_int_to_str_of_bytes(self, integer_value: int) -> str:
      number_of_bytes = round(integer_value.bit_length() / 8)
      hex_str = ' '.join([f'{val:02X}' for val in integer_value.to_bytes(number_of_bytes)])
      return hex_str
  \<close>
\<close>

definition convert_int_to_str_of_bytes :: "int \<Rightarrow> py_error + string" where
  "convert_int_to_str_of_bytes integer_value =
     (let number_of_bytes = round_div8 (bit_length integer_value)
      in bind_err (to_bytes integer_value number_of_bytes)
           (\<lambda>bytes. Inr (join_sp (map (\<lambda>val. format_02X val) bytes))))"

section \<open>Request builders (class Services)\<close>

subsection \<open>Diagnostic and communication management\<close>

definition diagnostic_session_control :: "int \<Rightarrow> string" where
  "diagnostic_session_control diagnostic_session_type =
     format_02X sid_DSC @ '' '' @ format_02X diagnostic_session_type"

definition ecu_reset :: "int \<Rightarrow> string" where
  "ecu_reset reset_type = format_02X sid_ER @ '' '' @ format_02X reset_type"

definition security_access :: "int \<Rightarrow> int list option \<Rightarrow> string" where
  "security_access security_access_type security_access_data_record =
     (let request = format_02X sid_SA @ '' '' @ format_02X (security_access_type AND 0xFF)
      in case security_access_data_record of
           None \<Rightarrow> request
         | Some record \<Rightarrow> request @ '' '' @ render_list record)"

definition communication_control :: "int \<Rightarrow> int \<Rightarrow> int option \<Rightarrow> string" where
  "communication_control control_type communication_type node_identification_number =
     (let request = format_02X sid_CC @ '' '' @ format_02X (control_type AND 0xFF)
                      @ '' '' @ format_02X (communication_type AND 0xFF)
      in case node_identification_number of
           None \<Rightarrow> request
         | Some n \<Rightarrow> request @ '' '' @ format_02X (drop_bit 8 (n AND 0xFF00))
                       @ '' '' @ str_int (n AND 0xFF))"

definition tester_present :: "int \<Rightarrow> string" where
  "tester_present zero_sub_functions =
     format_02X sid_TP @ '' '' @ format_02X (zero_sub_functions AND 0xFF)"

definition access_timing_parameter :: "int \<Rightarrow> int list option \<Rightarrow> string" where
  "access_timing_parameter timing_parameter_access_type timing_parameter_request_record =
     (let request = format_02X sid_ATP @ '' ''
                      @ format_02X (timing_parameter_access_type AND 0xFF)
      in case timing_parameter_request_record of
           None \<Rightarrow> request
         | Some record \<Rightarrow> request @ '' '' @ render_list record)"

definition secured_data_transmission :: "int list \<Rightarrow> string" where
  "secured_data_transmission security_data_request_record =
     format_02X sid_SDT @ '' '' @ render_list security_data_request_record"

definition control_dtc_setting :: "int \<Rightarrow> int list option \<Rightarrow> string" where
  "control_dtc_setting dtc_setting_type dtc_setting_control_option_record =
     (let request = format_02X sid_CDTCS @ '' '' @ format_02X (dtc_setting_type AND 0xFF)
      in case dtc_setting_control_option_record of
           None \<Rightarrow> request
         | Some record \<Rightarrow> request @ '' '' @ render_list record)"

definition response_on_event ::
  "int \<Rightarrow> int \<Rightarrow> int list option \<Rightarrow> int list option \<Rightarrow> string" where
  "response_on_event event_type event_window_time event_type_record
       service_to_respond_to_record =
     (let request = format_02X sid_ROE @ '' '' @ format_02X (event_type AND 0xFF)
                      @ '' '' @ format_02X (event_window_time AND 0xFF);
          request = (case event_type_record of
                       None \<Rightarrow> request
                     | Some record \<Rightarrow> request @ '' '' @ render_list record)
      in case service_to_respond_to_record of
           None \<Rightarrow> request
         | Some record \<Rightarrow> request @ '' '' @ render_list record)"

definition link_control :: "int \<Rightarrow> int option \<Rightarrow> int option \<Rightarrow> string" where
  "link_control link_control_type link_control_mode_identifier link_record =
     (let request = format_02X sid_LC @ '' '' @ format_02X (link_control_type AND 0xFF);
          request = (case link_control_mode_identifier of
                       None \<Rightarrow> request
                     | Some m \<Rightarrow> request @ '' '' @ str_int m)
      in case link_record of
           None \<Rightarrow> request
         | Some r \<Rightarrow> request @ '' '' @ format_02X (drop_bit 16 (r AND 0xFF0000))
                       @ '' '' @ format_02X (drop_bit 8 (r AND 0xFF00))
                       @ '' '' @ str_int (r AND 0xFF))"

subsection \<open>Data transmission\<close>

definition read_data_by_identifier :: "int list \<Rightarrow> string" where
  "read_data_by_identifier data_identifier =
     format_02X sid_RDBI @ '' ''
       @ join_sp (map (\<lambda>value. format_02X (drop_bit 8 (value AND 0xFF00))
                                  @ '' '' @ str_int (value AND 0xFF)) data_identifier)"

text \<open>
  The comprehension
  \<open>" ".join([f"{(x >> (i * 8)) & 0xFF:02X}" for i in reversed(range(n))])\<close>
  of read_memory_by_address and dynamically_define_data_identifier.
\<close>

definition big_endian_field :: "int \<Rightarrow> int \<Rightarrow> string" where
  "big_endian_field x n =
     join_sp (map (\<lambda>i. format_02X (drop_bit (i * 8) x AND 0xFF)) (rev [0..<nat n]))"

definition read_memory_by_address :: "int \<Rightarrow> int \<Rightarrow> int \<Rightarrow> string" where
  "read_memory_by_address address_and_length_format_identifier memory_address memory_size =
     (let request = format_02X sid_RMBA @ '' ''
                      @ str_int (address_and_length_format_identifier AND 0xFF);
          length_of_memory_address = address_and_length_format_identifier AND 0xF;
          length_of_memory_size = drop_bit 4 (address_and_length_format_identifier AND 0xF0);
          request = request @ '' '' @ big_endian_field memory_address length_of_memory_address;
          request = request @ '' '' @ big_endian_field memory_size length_of_memory_size
      in request)"

definition read_scaling_data_by_identifier :: "int \<Rightarrow> string" where
  "read_scaling_data_by_identifier data_identifier =
     format_02X sid_RSDBI @ '' '' @ format_02X (drop_bit 8 (data_identifier AND 0xFF00))
       @ '' '' @ format_02X (data_identifier AND 0xFF)"

definition read_data_by_periodic_identifier :: "int \<Rightarrow> int list \<Rightarrow> string" where
  "read_data_by_periodic_identifier transmission_mode periodic_data_identifier =
     (let request = format_02X sid_RDBPI @ '' '' @ format_02X transmission_mode;
          request = request @ '' '' @ render_list periodic_data_identifier
      in request)"

text \<open>
  dynamically_define_data_identifier takes \<open>Union[list[list[int]], int]\<close> as its
  supporting parameters, and in its second branch it rebinds a name to a string and then
  applies \<open>&\<close> to it, so a value there is an integer or a string.
\<close>

datatype supporting_params = ParamList "int list list" | ParamInt int

datatype py_value = PyInt int | PyStr string

definition py_and :: "py_value \<Rightarrow> int \<Rightarrow> py_error + int" where
  "py_and x m = (case x of PyInt a \<Rightarrow> Inr (a AND m) | PyStr s \<Rightarrow> Inl TypeError)"

text \<open>\<open>for params in supporting_params: request = ...\<close>, stopping at the first exception.\<close>

fun for_each ::
  "(string \<Rightarrow> int list \<Rightarrow> py_error + string) \<Rightarrow> string \<Rightarrow> int list list \<Rightarrow> py_error + string"
where
  "for_each body request [] = Inr request"
| "for_each body request (params # rest) =
     (case body request params of
        Inl e \<Rightarrow> Inl e
      | Inr request' \<Rightarrow> for_each body request' rest)"

text \<open>The loop body for \<open>definition_type == 0x01\<close>.\<close>

definition define_by_identifier_body :: "string \<Rightarrow> int list \<Rightarrow> py_error + string" where
  "define_by_identifier_body request params =
     bind_err (index params 0) (\<lambda>p0.
     bind_err (index params 1) (\<lambda>p1.
     bind_err (index params 2) (\<lambda>p2.
     bind_err (index params 3) (\<lambda>p3.
       let dynamically_defined_data_identifier =
             format_02X (drop_bit 8 p0 AND 0xFF) @ '' '' @ format_02X (p0 AND 0xFF);
           source_data_identifier =
             format_02X (drop_bit 8 p1 AND 0xFF) @ '' '' @ format_02X (p1 AND 0xFF);
           position_in_source_data_record = format_02X (p2 AND 0xFF);
           memory_size = format_02X (p3 AND 0xFF)
       in Inr (request @ '' '' @ dynamically_defined_data_identifier
                 @ '' '' @ source_data_identifier
                 @ '' '' @ position_in_source_data_record
                 @ '' '' @ memory_size)))))"

text \<open>
  The loop body for \<open>definition_type == 0x02\<close>:
  \<^verbatim>\<open>
  dynamically_defined_data_identifier = f'{params[0] >> 8 & 0xFF:02X} {params[0] & 0xFF:02X}'
  address_and_length_format_identifier = f'{params[1] & 0xFF:02X}'
  length_of_memory_address = address_and_length_format_identifier & 0xF
  length_of_memory_size = (address_and_length_format_identifier & 0xF0) >> 4
  memory_address = f'{" ".join([f"{(params[2] >> (i * 8)) & 0xFF:02X}" for i in reversed(range(length_of_memory_address))])}'
  memory_size = f'{" ".join([f"{(params[3] >> (i * 8)) & 0xFF:02X}" for i in reversed(range(length_of_memory_size))])}'
  request = f'{request} {dynamically_defined_data_identifier} {address_and_length_format_identifier} {memory_address} {memory_size}'
  \<close>
  \<open>params[2]\<close> and \<open>params[3]\<close> are read inside the comprehensions, so only when the
  range is not empty.
\<close>

definition define_by_memory_address_body :: "string \<Rightarrow> int list \<Rightarrow> py_error + string" where
  "define_by_memory_address_body request params =
     bind_err (index params 0) (\<lambda>p0.
     bind_err (index params 1) (\<lambda>p1.
       let dynamically_defined_data_identifier =
             format_02X (drop_bit 8 p0 AND 0xFF) @ '' '' @ format_02X (p0 AND 0xFF);
           address_and_length_format_identifier = format_02X (p1 AND 0xFF)
       in
     bind_err (py_and (PyStr address_and_length_format_identifier) 0xF)
       (\<lambda>length_of_memory_address.
     bind_err (py_and (PyStr address_and_length_format_identifier) 0xF0) (\<lambda>high.
       let length_of_memory_size = drop_bit 4 high in
     bind_err (if 0 < length_of_memory_address
               then bind_err (index params 2)
                      (\<lambda>p2. Inr (big_endian_field p2 length_of_memory_address))
               else Inr []) (\<lambda>memory_address.
     bind_err (if 0 < length_of_memory_size
               then bind_err (index params 3)
                      (\<lambda>p3. Inr (big_endian_field p3 length_of_memory_size))
               else Inr []) (\<lambda>memory_size.
       Inr (request @ '' '' @ dynamically_defined_data_identifier
              @ '' '' @ address_and_length_format_identifier
              @ '' '' @ memory_address
              @ '' '' @ memory_size)))))))"

text \<open>
  The result is the returned string or the exception raised, together with the lines
  the call printed on standard output.
\<close>

definition dynamically_define_data_identifier ::
  "int \<Rightarrow> supporting_params \<Rightarrow> (py_error + string) \<times> string list" where
  "dynamically_define_data_identifier definition_type supporting_params =
     (let request = format_02X sid_DDDI @ '' '' @ format_02X definition_type
      in if definition_type = 0x01 then
           (case supporting_params of
              ParamList records \<Rightarrow> (for_each define_by_identifier_body request records, [])
            | ParamInt n \<Rightarrow> (Inl TypeError, []))
         else if definition_type = 0x02 then
           (case supporting_params of
              ParamList records \<Rightarrow> (for_each define_by_memory_address_body request records, [])
            | ParamInt n \<Rightarrow> (Inl TypeError, []))
         else if definition_type = 0x03 then
           (case supporting_params of
              ParamList records \<Rightarrow> (Inl TypeError, [])
            | ParamInt n \<Rightarrow>
                (let dynamically_defined_data_identifier =
                       format_02X (drop_bit 8 n AND 0xFF) @ '' '' @ format_02X (n AND 0xFF)
                 in (Inr (request @ '' '' @ dynamically_defined_data_identifier), [])))
         else
           (Inr request,
            [''invalid definition_type '' @ str_int definition_type
               @ ''. possible values -> 0 to 3. request sent without supporting_params'']))"

definition write_data_by_identifier :: "int \<Rightarrow> int list \<Rightarrow> py_error + string" where
  "write_data_by_identifier data_identifier data_record =
     bind_err (convert_int_to_str_of_bytes data_identifier) (\<lambda>data_identifier.
       let data_record = render_list data_record
       in Inr (format_02X sid_WDBI @ '' '' @ data_identifier @ '' '' @ data_record))"

definition write_memory_by_address ::
  "int \<Rightarrow> int \<Rightarrow> int \<Rightarrow> int list \<Rightarrow> py_error + string" where
  "write_memory_by_address address_and_length_format_identifier memory_address memory_size
       data_record =
     bind_err (convert_int_to_str_of_bytes address_and_length_format_identifier)
       (\<lambda>address_and_length_format_identifier.
     bind_err (convert_int_to_str_of_bytes memory_address) (\<lambda>memory_address.
     bind_err (convert_int_to_str_of_bytes memory_size) (\<lambda>memory_size.
       let data_record = render_list data_record
       in Inr (format_02X sid_WMBA @ '' '' @ address_and_length_format_identifier
                 @ '' '' @ memory_address @ '' '' @ memory_size @ '' '' @ data_record))))"

subsection \<open>Stored data transmission\<close>

definition clear_diagnostic_information :: "int \<Rightarrow> py_error + string" where
  "clear_diagnostic_information group_of_dtc =
     bind_err (convert_int_to_str_of_bytes group_of_dtc) (\<lambda>group_of_dtc.
       Inr (format_02X sid_CDTCI @ '' '' @ group_of_dtc))"

definition read_dtc_information :: "int \<Rightarrow> int list \<Rightarrow> py_error + string" where
  "read_dtc_information report_type remaining_arguments_list =
     bind_err (convert_int_to_str_of_bytes report_type) (\<lambda>report_type.
       let remaining_arguments_list = render_list remaining_arguments_list
       in Inr (format_02X sid_RDTCI @ '' '' @ report_type @ '' '' @ remaining_arguments_list))"

subsection \<open>Input output control\<close>

definition input_output_control_by_identifier ::
  "int \<Rightarrow> int list \<Rightarrow> int list option \<Rightarrow> py_error + string" where
  "input_output_control_by_identifier data_identifier control_option_record
       control_enable_mask_record =
     bind_err (convert_int_to_str_of_bytes data_identifier) (\<lambda>data_identifier.
       let control_option_record = render_list control_option_record;
           control_enable_mask_record =
             (case control_enable_mask_record of
                None \<Rightarrow> []
              | Some record \<Rightarrow> render_list record)
       in Inr (format_02X sid_IOCBI @ '' '' @ data_identifier @ '' '' @ control_option_record
                 @ '' '' @ control_enable_mask_record))"

subsection \<open>Remote activation of routine\<close>

definition routine_control :: "int \<Rightarrow> int \<Rightarrow> int list option \<Rightarrow> py_error + string" where
  "routine_control routine_control_type routine_identifier routine_control_option_record =
     bind_err (convert_int_to_str_of_bytes routine_control_type) (\<lambda>routine_control_type.
     bind_err (convert_int_to_str_of_bytes routine_identifier) (\<lambda>routine_identifier.
       let routine_control_option_record =
             (case routine_control_option_record of
                None \<Rightarrow> []
              | Some record \<Rightarrow> render_list record)
       in Inr (format_02X sid_RC @ '' '' @ routine_control_type @ '' '' @ routine_identifier
                 @ '' '' @ routine_control_option_record)))"

subsection \<open>Upload download\<close>

definition request_download :: "int \<Rightarrow> int \<Rightarrow> int \<Rightarrow> int \<Rightarrow> py_error + string" where
  "request_download data_format_identifier address_and_length_format_identifier
       memory_address memory_size =
     (let data_format_identifier = format_02X (data_format_identifier AND 0xFF);
          address_and_length_format_identifier =
            format_02X (address_and_length_format_identifier AND 0xFF)
      in bind_err (convert_int_to_str_of_bytes memory_address) (\<lambda>memory_address.
         bind_err (convert_int_to_str_of_bytes memory_size) (\<lambda>memory_size.
           Inr (format_02X sid_RD @ '' '' @ data_format_identifier
                  @ '' '' @ address_and_length_format_identifier
                  @ '' '' @ memory_address @ '' '' @ memory_size))))"

definition request_upload :: "int \<Rightarrow> int \<Rightarrow> int \<Rightarrow> int \<Rightarrow> py_error + string" where
  "request_upload data_format_identifier address_and_length_format_identifier
       memory_address memory_size =
     bind_err (convert_int_to_str_of_bytes data_format_identifier) (\<lambda>data_format_identifier.
     bind_err (convert_int_to_str_of_bytes address_and_length_format_identifier)
       (\<lambda>address_and_length_format_identifier.
     bind_err (convert_int_to_str_of_bytes memory_address) (\<lambda>memory_address.
     bind_err (convert_int_to_str_of_bytes memory_size) (\<lambda>memory_size.
       Inr (format_02X sid_RU @ '' '' @ data_format_identifier
              @ '' '' @ address_and_length_format_identifier
              @ '' '' @ memory_address @ '' '' @ memory_size)))))"

definition transfer_data :: "int \<Rightarrow> int list \<Rightarrow> py_error + string" where
  "transfer_data block_sequence_counter transfer_request_parameter_record =
     bind_err (convert_int_to_str_of_bytes block_sequence_counter) (\<lambda>block_sequence_counter.
       let transfer_request_parameter_record = render_list transfer_request_parameter_record
       in Inr (format_02X sid_TD @ '' '' @ block_sequence_counter
                 @ '' '' @ transfer_request_parameter_record))"

definition request_transfer_exit :: "int list option \<Rightarrow> string" where
  "request_transfer_exit transfer_request_parameter_record =
     (case transfer_request_parameter_record of
        None \<Rightarrow> format_02X sid_RTE
      | Some record \<Rightarrow>
          (let transfer_request_parameter_record = render_list record
           in format_02X sid_TD @ '' '' @ transfer_request_parameter_record))"

text \<open>
  request_file_transfer declares its last four parameters with the default \<open>None\<close> and
  then applies \<open>& 0xFF\<close> to the first two and iterates over the last two.
\<close>

definition request_file_transfer ::
  "int \<Rightarrow> int \<Rightarrow> int list \<Rightarrow> int option \<Rightarrow> int option \<Rightarrow> int list option \<Rightarrow> int list option
     \<Rightarrow> py_error + string" where
  "request_file_transfer mode_of_operation file_path_and_name_length file_path_and_name
       data_format_identifier file_size_parameter_length file_size_uncompressed
       file_size_compressed =
     bind_err (convert_int_to_str_of_bytes mode_of_operation) (\<lambda>mode_of_operation.
     bind_err (convert_int_to_str_of_bytes file_path_and_name_length)
       (\<lambda>file_path_and_name_length.
       let file_path_and_name = render_list file_path_and_name in
     bind_err (require data_format_identifier) (\<lambda>v.
       let data_format_identifier = format_02X (v AND 0xFF) in
     bind_err (require file_size_parameter_length) (\<lambda>v.
       let file_size_parameter_length = format_02X (v AND 0xFF) in
     bind_err (require file_size_uncompressed) (\<lambda>record.
       let file_size_uncompressed = render_list record in
     bind_err (require file_size_compressed) (\<lambda>record.
       let file_size_compressed = render_list record
       in Inr (format_02X sid_RFT @ '' '' @ mode_of_operation
                 @ '' '' @ file_path_and_name_length
                 @ '' '' @ file_path_and_name
                 @ '' '' @ data_format_identifier
                 @ '' '' @ file_size_parameter_length
                 @ '' '' @ file_size_uncompressed
                 @ '' '' @ file_size_compressed)))))))"

section \<open>Vocabulary of the properties\<close>

text \<open>The two upper-case hexadecimal digits of a byte, high digit first.\<close>

definition hex_byte :: "nat \<Rightarrow> string" where
  "hex_byte b = [hex_digit (b div 16), hex_digit (b mod 16)]"

text \<open>
  The format of an encoded request: split at every space (as \<open>s.split(' ')\<close> does, so
  that a leading, trailing or doubled space gives an empty token), each token is two
  upper-case hexadecimal digits.
\<close>

fun split_sp :: "string \<Rightarrow> string list" where
  "split_sp [] = [[]]"
| "split_sp (c # cs) =
     (if c = CHR '' '' then [] # split_sp cs
      else (case split_sp cs of [] \<Rightarrow> [[c]] | t # ts \<Rightarrow> (c # t) # ts))"

definition is_hex_token :: "string \<Rightarrow> bool" where
  "is_hex_token t = (length t = 2 \<and> list_all (\<lambda>c. c \<in> set ''0123456789ABCDEF'') t)"

definition well_formed_request :: "string \<Rightarrow> bool" where
  "well_formed_request s = list_all is_hex_token (split_sp s)"

section \<open>Arithmetic of masks and shifts\<close>

lemma and_255_mod: "(v::int) AND 255 = v mod 256"
  using take_bit_eq_mask [of 8 v] by (simp add: take_bit_eq_mod mask_eq_exp_minus_1)

lemma and_15_mod: "(v::int) AND 15 = v mod 16"
  using take_bit_eq_mask [of 4 v] by (simp add: take_bit_eq_mod mask_eq_exp_minus_1)

lemma high_nibble: "drop_bit 4 ((v::int) AND 240) = (v div 16) mod 16"
proof -
  have "drop_bit 4 (v AND 240) = drop_bit 4 v AND drop_bit 4 (240::int)"
    by (simp only: drop_bit_and)
  also have "drop_bit 4 (240::int) = 15"
    by (simp add: drop_bit_eq_div)
  finally show ?thesis
    by (simp add: and_15_mod drop_bit_eq_div)
qed

lemma shifted_byte: "drop_bit (i * 8) (x::int) AND 255 = (x div 256 ^ i) mod 256"
proof -
  have "(2::int) ^ (i * 8) = (2 ^ 8) ^ i"
    by (simp only: mult.commute [of i 8] power_mult)
  also have "\<dots> = 256 ^ i"
    by simp
  finally have "drop_bit (i * 8) x = x div 256 ^ i"
    by (simp only: drop_bit_eq_div)
  then show ?thesis
    by (simp only: and_255_mod)
qed

section \<open>Formatting of bytes\<close>

lemma hex_digits_one: "n < 16 \<Longrightarrow> hex_digits n = [hex_digit n]"
  by (subst hex_digits.simps) simp

lemma hex_digits_two:
  "16 \<le> n \<Longrightarrow> n < 256 \<Longrightarrow> hex_digits n = [hex_digit (n div 16), hex_digit (n mod 16)]"
  by (subst hex_digits.simps) (simp add: hex_digits_one)

text \<open>On a byte, \<open>:02X\<close> gives exactly the two hexadecimal digits.\<close>

lemma format_02X_byte:
  assumes "0 \<le> b" "b < 256"
  shows "format_02X b = hex_byte (nat b)"
proof (cases "nat b < 16")
  case True
  then show ?thesis
    using assms by (simp add: format_02X_def hex_byte_def hex_digits_one hex_digit_def)
next
  case False
  then show ?thesis
    using assms by (simp add: format_02X_def hex_byte_def hex_digits_two)
qed

lemma format_02X_masked: "format_02X (v AND 255) = hex_byte (nat (v mod 256))"
  by (simp add: and_255_mod format_02X_byte)

lemma render_list_bytes:
  "render_list record = join_sp (map (\<lambda>v. hex_byte (nat (v mod 256))) record)"
  by (simp add: render_list_def format_02X_masked)

lemma big_endian_field_bytes:
  "big_endian_field x n =
     join_sp (map (\<lambda>i. hex_byte (nat ((x div 256 ^ i) mod 256))) (rev [0..<nat n]))"
  by (simp add: big_endian_field_def shifted_byte format_02X_byte)

text \<open>A decimal rendering is made of decimal digits only.\<close>

lemma dec_digits_chars: "set (dec_digits n) \<subseteq> set ''0123456789''"
proof (induction n rule: dec_digits.induct)
  case (1 n)
  have d: "hex_digit k \<in> set ''0123456789''" if "k < 10" for k
  proof -
    from that have "k \<in> {0, 1, 2, 3, 4, 5, 6, 7, 8, 9}"
      by auto
    then show ?thesis
      by (auto simp: hex_digit_def)
  qed
  show ?case
  proof (cases "n < 10")
    case True
    then show ?thesis
      using d [of n] by (subst dec_digits.simps) simp
  next
    case False
    then show ?thesis
      using 1 d [of "n mod 10"] by (subst dec_digits.simps) simp
  qed
qed

lemma dec_digits_nonempty: "dec_digits n \<noteq> []"
  by (subst dec_digits.simps) simp

lemma str_int_token:
  "0 \<le> v \<Longrightarrow> str_int v \<noteq> [] \<and> CHR '' '' \<notin> set (str_int v)"
  using dec_digits_chars [of "nat v"] dec_digits_nonempty [of "nat v"]
  by (auto simp: str_int_def)

section \<open>ReadMemoryByAddress\<close>

text \<open>
  Claim C1, as the spec states it, gives \<open>read_memory_by_address(0x14, 0x1000, 0x0100)\<close>
  the request \<open>23 14 00 00 10 00 01 00\<close>. The code returns \<open>23 20 00 00 10 00 00\<close>:
  the size has the one byte that the high nibble 1 declares, so \<open>0x0100\<close> is cut to its
  low byte, and the format byte is written in decimal.
\<close>

theorem read_memory_by_address_example_counterexample:
  "read_memory_by_address 0x14 0x1000 0x0100 = ''23 20 00 00 10 00 00'' \<and>
   read_memory_by_address 0x14 0x1000 0x0100 \<noteq> ''23 14 00 00 10 00 01 00''"
  by code_simp

text \<open>
  Claim C1, amended: for every format identifier \<open>f\<close>, address \<open>a\<close> and size \<open>s\<close>, the
  request of read_memory_by_address is the SID \<open>23\<close>, one token for the format byte,
  then the address as exactly (low nibble of \<open>f\<close>) bytes and the size as exactly (high
  nibble of \<open>f\<close>) bytes, each field big-endian (byte \<open>i\<close> of a field is
  \<open>(x div 256 ^ i) mod 256\<close>, most significant first), each byte as two hexadecimal
  digits; the fields are joined by single spaces. A value wider than its declared width
  loses its high bytes: for \<open>(0x14, 0x1000, 0x0100)\<close> the address field is
  \<open>00 00 10 00\<close> and the size field is \<open>00\<close>.
\<close>

theorem read_memory_by_address_layout:
  "(\<exists>fmt. fmt \<noteq> [] \<and> CHR '' '' \<notin> set fmt \<and>
      read_memory_by_address f a s =
        ''23 '' @ fmt
          @ '' '' @ join_sp (map (\<lambda>i. hex_byte (nat ((a div 256 ^ i) mod 256)))
                               (rev [0..<nat (f mod 16)]))
          @ '' '' @ join_sp (map (\<lambda>i. hex_byte (nat ((s div 256 ^ i) mod 256)))
                               (rev [0..<nat ((f div 16) mod 16)]))) \<and>
   (\<exists>fmt. fmt \<noteq> [] \<and> CHR '' '' \<notin> set fmt \<and>
      read_memory_by_address 0x14 0x1000 0x0100 = ''23 '' @ fmt @ '' 00 00 10 00'' @ '' 00'')"
proof -
  have sid: "format_02X sid_RMBA = ''23''"
    by code_simp
  have tok: "str_int (f AND 255) \<noteq> [] \<and> CHR '' '' \<notin> set (str_int (f AND 255))"
    by (rule str_int_token) (simp add: and_255_mod)
  have "read_memory_by_address f a s =
       ''23 '' @ str_int (f AND 255)
         @ '' '' @ join_sp (map (\<lambda>i. hex_byte (nat ((a div 256 ^ i) mod 256)))
                              (rev [0..<nat (f mod 16)]))
         @ '' '' @ join_sp (map (\<lambda>i. hex_byte (nat ((s div 256 ^ i) mod 256)))
                              (rev [0..<nat ((f div 16) mod 16)]))"
    unfolding read_memory_by_address_def Let_def high_nibble and_15_mod
      big_endian_field_bytes sid
    by simp
  with tok have general: "\<exists>fmt. fmt \<noteq> [] \<and> CHR '' '' \<notin> set fmt \<and>
      read_memory_by_address f a s =
        ''23 '' @ fmt
          @ '' '' @ join_sp (map (\<lambda>i. hex_byte (nat ((a div 256 ^ i) mod 256)))
                               (rev [0..<nat (f mod 16)]))
          @ '' '' @ join_sp (map (\<lambda>i. hex_byte (nat ((s div 256 ^ i) mod 256)))
                               (rev [0..<nat ((f div 16) mod 16)]))"
    by blast
  have "read_memory_by_address 0x14 0x1000 0x0100 = ''23 20 00 00 10 00 00''"
    by code_simp
  then have "''20'' \<noteq> [] \<and> CHR '' '' \<notin> set ''20'' \<and>
      read_memory_by_address 0x14 0x1000 0x0100 = ''23 '' @ ''20'' @ '' 00 00 10 00'' @ '' 00''"
    by simp
  then have example: "\<exists>fmt. fmt \<noteq> [] \<and> CHR '' '' \<notin> set fmt \<and>
      read_memory_by_address 0x14 0x1000 0x0100 = ''23 '' @ fmt @ '' 00 00 10 00'' @ '' 00''"
    by (rule exI [of "\<lambda>fmt. fmt \<noteq> [] \<and> CHR '' '' \<notin> set fmt \<and>
      read_memory_by_address 0x14 0x1000 0x0100 = ''23 '' @ fmt @ '' 00 00 10 00'' @ '' 00''"
      "''20''"])
  from general example show ?thesis
    by (rule conjI)
qed

section \<open>The generic big-endian helper on small values\<close>

text \<open>
  The byte count is \<open>round(bit_length / 8)\<close>, which is 0 for every value of 1 to 4 bits,
  and \<open>to_bytes(0)\<close> accepts the value 0 only.
\<close>

lemma bit_length_nat_small: "n < 16 \<Longrightarrow> bit_length_nat n \<le> 4"
proof -
  assume "n < 16"
  then have "n div 2 div 2 div 2 div 2 = 0"
    by simp
  then show ?thesis
    by (simp add: bit_length_nat.simps [of n] bit_length_nat.simps [of "n div 2"]
        bit_length_nat.simps [of "n div 2 div 2"]
        bit_length_nat.simps [of "n div 2 div 2 div 2"] bit_length_nat.simps [of 0])
qed

lemma convert_int_to_str_of_bytes_small:
  assumes "0 < v" "v < 16"
  shows "convert_int_to_str_of_bytes v = Inl OverflowError"
proof -
  have "bit_length v \<le> 4"
    unfolding bit_length_def using assms by (intro bit_length_nat_small) simp
  then have "round_div8 (bit_length v) = 0"
    by (simp add: round_div8_def)
  then show ?thesis
    using assms by (simp add: convert_int_to_str_of_bytes_def to_bytes_def bind_err_def)
qed

text \<open>
  The helper raises exactly when the rounded byte count is too small for the value (or
  the value is negative); when it returns, the bytes are the big-endian bytes of the
  value, as many as the bit length needs.
\<close>

lemma bit_length_nat_le: "bit_length_nat n \<le> k \<longleftrightarrow> n < 2 ^ k"
proof (induction k arbitrary: n)
  case 0
  show ?case
    by (subst bit_length_nat.simps) simp
next
  case (Suc k)
  have "bit_length_nat n \<le> Suc k \<longleftrightarrow> n = 0 \<or> bit_length_nat (n div 2) \<le> k"
    by (subst bit_length_nat.simps) simp
  also have "\<dots> \<longleftrightarrow> n = 0 \<or> n div 2 < 2 ^ k"
    by (simp only: Suc.IH)
  also have "\<dots> \<longleftrightarrow> n < 2 ^ Suc k"
    by auto
  finally show ?case .
qed

lemma fits_in_bytes: "0 \<le> v \<Longrightarrow> v < 256 ^ n \<longleftrightarrow> bit_length v \<le> 8 * n"
proof -
  assume "0 \<le> v"
  have "(256::nat) ^ n = 2 ^ (8 * n)"
    by (simp add: power_mult)
  then have "bit_length v \<le> 8 * n \<longleftrightarrow> nat v < 256 ^ n"
    using \<open>0 \<le> v\<close> by (simp add: bit_length_def bit_length_nat_le)
  also have "\<dots> \<longleftrightarrow> v < 256 ^ n"
    using \<open>0 \<le> v\<close> by (simp add: nat_less_iff)
  finally show ?thesis by simp
qed

lemma convert_int_to_str_of_bytes_raises_iff:
  "convert_int_to_str_of_bytes v = Inl OverflowError \<longleftrightarrow>
     v < 0 \<or> 8 * round_div8 (bit_length v) < bit_length v"
proof (cases "v < 0")
  case True
  then show ?thesis
    by (simp add: convert_int_to_str_of_bytes_def to_bytes_def bind_err_def)
next
  case False
  then have "0 \<le> v"
    by simp
  from fits_in_bytes [OF this, of "round_div8 (bit_length v)"] False show ?thesis
    by (auto simp: convert_int_to_str_of_bytes_def to_bytes_def bind_err_def Let_def)
qed

lemma round_div8_short:
  "8 * round_div8 k < k \<longleftrightarrow>
     0 < k mod 8 \<and> (k mod 8 < 4 \<or> (k mod 8 = 4 \<and> even (k div 8)))"
  unfolding round_div8_def by presburger

lemma ceiling_div8:
  "((k::nat) + 7) div 8 = (if k mod 8 = 0 then k div 8 else k div 8 + 1)"
  by presburger

lemma round_div8_enough:
  "\<not> 8 * round_div8 k < k \<Longrightarrow> round_div8 k = (k + 7) div 8"
  unfolding round_div8_short ceiling_div8 by (auto simp: round_div8_def)

lemma convert_int_to_str_of_bytes_result:
  assumes "convert_int_to_str_of_bytes v = Inr s"
  shows "s = join_sp (map (\<lambda>i. hex_byte (nat ((v div 256 ^ i) mod 256)))
                       (rev [0..<(bit_length v + 7) div 8]))"
proof -
  have ok: "\<not> (v < 0 \<or> 8 * round_div8 (bit_length v) < bit_length v)"
    using assms convert_int_to_str_of_bytes_raises_iff [of v] by auto
  then have n: "round_div8 (bit_length v) = (bit_length v + 7) div 8"
    by (simp add: round_div8_enough)
  from ok have v: "0 \<le> v"
    by simp
  from ok have "v < 256 ^ round_div8 (bit_length v)"
    using fits_in_bytes [OF v, of "round_div8 (bit_length v)"] by simp
  with v have "to_bytes v (round_div8 (bit_length v)) =
      Inr (map (\<lambda>i. (v div 256 ^ i) mod 256) (rev [0..<round_div8 (bit_length v)]))"
    by (simp add: to_bytes_def)
  with assms have "s = join_sp (map (\<lambda>i. format_02X ((v div 256 ^ i) mod 256))
      (rev [0..<round_div8 (bit_length v)]))"
    by (simp add: convert_int_to_str_of_bytes_def bind_err_def comp_def)
  then show ?thesis
    by (simp add: format_02X_byte n)
qed

text \<open>
  Claim C2 says that convert_int_to_str_of_bytes returns the fewest big-endian bytes of
  every non-negative integer and never fails. On the value 1 the code computes
  \<open>round(1 / 8) = 0\<close> bytes and \<open>(1).to_bytes(0)\<close> raises OverflowError, where the
  claim requires the one byte \<open>01\<close>.
\<close>

theorem convert_int_to_str_of_bytes_one_raises:
  "convert_int_to_str_of_bytes 1 = Inl OverflowError"
  by code_simp

section \<open>The format of the encoded request\<close>

lemma tester_present_bytes:
  "tester_present v = ''3E '' @ hex_byte (nat (v mod 256))"
proof -
  have "format_02X sid_TP = ''3E''"
    by code_simp
  then show ?thesis
    by (simp add: tester_present_def format_02X_masked)
qed

lemma diagnostic_session_control_default_well_formed:
  "well_formed_request (diagnostic_session_control 0x01)"
  by code_simp

text \<open>
  Claim C3 says that every returned request is made of 2-digit upper-case hexadecimal
  tokens separated by single spaces. read_data_by_identifier writes the low byte of an
  identifier with no format specification, so \<open>[0xF105]\<close> gives the one-character
  decimal token \<open>5\<close>; routine_control called without an option record appends a space
  and the empty string, so its request ends in a space.
\<close>

theorem request_format_violated:
  "read_data_by_identifier [0xF105] = ''22 F1 5'' \<and>
   \<not> well_formed_request ''22 F1 5'' \<and>
   routine_control 0x10 0xFF00 None = Inr ''31 10 FF 00 '' \<and>
   \<not> well_formed_request ''31 10 FF 00 ''"
proof (intro conjI)
  show "read_data_by_identifier [0xF105] = ''22 F1 5''"
    by code_simp
  show "\<not> well_formed_request ''22 F1 5''"
    by code_simp
  show "routine_control 0x10 0xFF00 None = Inr ''31 10 FF 00 ''"
    by (simp add: routine_control_def sid_RC_def convert_int_to_str_of_bytes_def
        bit_length_def bit_length_nat.simps round_div8_def to_bytes_def bind_err_def upt_rec
        format_02X_def hex_digits.simps hex_digit_def)
  show "\<not> well_formed_request ''31 10 FF 00 ''"
    by code_simp
qed

section \<open>Optional parameters of request_file_transfer\<close>

text \<open>
  Claim C4 says that a call which omits the parameters declared optional returns a
  string. request_file_transfer with only its three required arguments raises for
  every choice of them: where both conversions of the scalar fields succeed, the code
  reaches \<open>None & 0xFF\<close>, a TypeError.
\<close>

theorem request_file_transfer_required_only_raises:
  "(\<exists>e. request_file_transfer m l p None None None None = Inl e) \<and>
   request_file_transfer 0x10 0x20 [0x01, 0x02] None None None None = Inl TypeError"
proof
  show "\<exists>e. request_file_transfer m l p None None None None = Inl e"
    by (cases "convert_int_to_str_of_bytes m"; cases "convert_int_to_str_of_bytes l")
       (simp_all add: request_file_transfer_def bind_err_def require_def)
  show "request_file_transfer 0x10 0x20 [0x01, 0x02] None None None None = Inl TypeError"
    by code_simp
qed

section \<open>Masking of one-byte parameters\<close>

text \<open>
  Claim C5 says that every one-byte parameter appears in the request as \<open>v & 0xFF\<close>.
  diagnostic_session_control formats its parameter without the mask, so \<open>0x101\<close>
  appears as \<open>101\<close>; tester_present, which masks, gives \<open>01\<close> for the same value.
\<close>

theorem diagnostic_session_control_not_masked:
  "diagnostic_session_control 0x101 = ''10 101'' \<and> tester_present 0x101 = ''3E 01''"
  by code_simp

section \<open>ReadDataByIdentifier\<close>

text \<open>
  Claim C6 says that \<open>read_data_by_identifier([0xF190])\<close> returns \<open>22 F1 90\<close>. The code
  writes the low byte \<open>0x90\<close> in decimal and returns \<open>22 F1 144\<close>.
\<close>

theorem read_data_by_identifier_F190:
  "read_data_by_identifier [0xF190] = ''22 F1 144''"
  by code_simp

section \<open>CommunicationControl\<close>

lemma communication_control_without_node:
  "communication_control c t None =
     ''28 '' @ hex_byte (nat (c mod 256)) @ '' '' @ hex_byte (nat (t mod 256))"
proof -
  have "format_02X sid_CC = ''28''"
    by code_simp
  then show ?thesis
    by (simp add: communication_control_def format_02X_masked)
qed

text \<open>
  Claim C7 says that \<open>communication_control(0x00, 0x01, node_identification_number=0x0102)\<close>
  returns \<open>28 00 01 01 02\<close>. The code writes the low byte of the node identification
  number with no format specification and returns \<open>28 00 01 01 2\<close>.
\<close>

theorem communication_control_node_0102:
  "communication_control 0x00 0x01 (Some 0x0102) = ''28 00 01 01 2''"
  by code_simp

section \<open>DynamicallyDefineDataIdentifier\<close>

text \<open>
  Claim C8 says that definition type 2 encodes every well-formed list of 4-tuples and
  returns the request. The code formats the format byte into a string and then applies
  \<open>& 0xF\<close> to that string: every list whose first record has at least two elements
  raises TypeError, and nothing is returned.
\<close>

theorem define_by_memory_address_raises:
  "fst (dynamically_define_data_identifier 2 (ParamList ((a # b # ps) # rest)))
     = Inl TypeError \<and>
   dynamically_define_data_identifier 2 (ParamList [[0xF200, 0x14, 0x1000, 0x01]])
     = (Inl TypeError, [])"
proof
  show "fst (dynamically_define_data_identifier 2 (ParamList ((a # b # ps) # rest)))
     = Inl TypeError"
    by (simp add: dynamically_define_data_identifier_def define_by_memory_address_body_def
        bind_err_def index_def py_and_def)
  show "dynamically_define_data_identifier 2 (ParamList [[0xF200, 0x14, 0x1000, 0x01]])
     = (Inl TypeError, [])"
    by code_simp
qed

text \<open>
  The fallback of dynamically_define_data_identifier: for every definition type other
  than 1, 2 and 3, and whatever the supporting parameters are, the call raises nothing,
  prints one diagnostic line, and returns the SID \<open>2C\<close> followed by
  \<open>f'{definition_type:02X}'\<close> and nothing else. Only for a definition type in the
  range of a byte is that token the two hexadecimal digits of the byte.
\<close>

lemma unrecognised_definition_type_fallback:
  "definition_type \<notin> {1, 2, 3} \<Longrightarrow>
     dynamically_define_data_identifier definition_type supporting_params =
       (Inr (''2C '' @ format_02X definition_type),
        [''invalid definition_type '' @ str_int definition_type
           @ ''. possible values -> 0 to 3. request sent without supporting_params'']) \<and>
     (0 \<le> definition_type \<and> definition_type < 256 \<longrightarrow>
        format_02X definition_type = hex_byte (nat definition_type))"
proof -
  assume "definition_type \<notin> {1, 2, 3}"
  moreover have "format_02X sid_DDDI = ''2C''"
    by code_simp
  ultimately show ?thesis
    by (simp add: dynamically_define_data_identifier_def format_02X_byte)
qed

lemma unrecognised_definition_type_fallback_zero:
  "(0::int) \<notin> {1, 2, 3} \<and> (0::int) \<le> 0 \<and> (0::int) < 256 \<and>
   dynamically_define_data_identifier 0 (ParamList [[0xF200, 0xF190, 1, 2]]) =
     (Inr ''2C 00'',
      [''invalid definition_type 0. possible values -> 0 to 3. request sent without supporting_params'']) \<and>
   format_02X 0 = hex_byte (nat 0)"
proof -
  have h: "(0::int) \<notin> {1, 2, 3}"
    by simp
  have f: "format_02X 0 = ''00''" and s: "str_int 0 = ''0''"
    by code_simp+
  show ?thesis
    using h unrecognised_definition_type_fallback [OF h, of "ParamList [[0xF200, 0xF190, 1, 2]]"]
    by (simp add: f s)
qed

text \<open>
  Claim C9 says that for any definition type outside 1, 2 and 3 the returned request is
  the SID byte and the discriminant byte only. The code formats the definition type
  with no mask, so outside the range of a byte the second token is not a byte: the
  definition type \<open>0x101\<close> gives \<open>2C 101\<close> and \<open>-1\<close> gives \<open>2C -1\<close>, where the
  discriminant byte is \<open>01\<close> and \<open>FF\<close>. The diagnostic line is printed and nothing is
  raised, as the claim says.
\<close>

theorem unrecognised_definition_type_not_masked:
  "dynamically_define_data_identifier 0x101 (ParamList [[0xF200, 0xF190, 1, 2]]) =
     (Inr ''2C 101'',
      [''invalid definition_type 257. possible values -> 0 to 3. request sent without supporting_params'']) \<and>
   \<not> well_formed_request ''2C 101'' \<and>
   dynamically_define_data_identifier (- 1) (ParamInt 0xF200) =
     (Inr ''2C -1'',
      [''invalid definition_type -1. possible values -> 0 to 3. request sent without supporting_params'']) \<and>
   \<not> well_formed_request ''2C -1''"
  by code_simp

section \<open>RequestTransferExit\<close>

text \<open>
  Claim C10: request_transfer_exit without a parameter record returns the single SID
  byte \<open>37\<close>; with a record it returns the TransferData SID \<open>36\<close> followed by the
  bytes of the record, each masked to its low 8 bits and written as two hexadecimal
  digits.
\<close>

theorem request_transfer_exit_sid:
  "request_transfer_exit None = ''37'' \<and>
   request_transfer_exit (Some record) =
     ''36 '' @ join_sp (map (\<lambda>v. hex_byte (nat (v mod 256))) record)"
proof -
  have "format_02X sid_RTE = ''37''" and "format_02X sid_TD = ''36''"
    by code_simp+
  then show ?thesis
    by (simp add: request_transfer_exit_def render_list_bytes)
qed

end
